theory Spec2Isabelle
  imports Complex_Main
begin

section \<open>Data model (edge\_nhl/data\_models.py)\<close>

text \<open>
  Python floats are modelled by the exact decimal value they denote: \<open>Finite q\<close> stands for
  the binary64 value nearest to the rational \<open>q\<close>; rounding, overflow to infinity and
  the sign of zero are outside the model.
\<close>

datatype pyfloat = Finite rat | PosInf | NegInf | NaN

text \<open>One line of a statistics table (class StatRow).\<close>

record StatRow =
  stat_label :: string
  player_value :: "pyfloat option"
  league_average :: "pyfloat option"
  percentile :: "pyfloat option"
  tooltip :: "string option"

text \<open>
  Values of type \<open>Any\<close>: what \<open>json.loads\<close> returns, and the rows that
  \<open>parse_table\<close> stores in the shot-location slot. A dict is an association list
  read with \<open>map_of\<close>.
\<close>

datatype pyval =
    PNone
  | PBool bool
  | PInt int
  | PFloat pyfloat
  | PStr string
  | PList "pyval list"
  | PDict "(string \<times> pyval) list"
  | PRow StatRow

record RadarChartItem =
  axis_label :: pyval
  item_value :: pyfloat
  value_label :: pyval

record RadarChartData =
  config :: pyval
  chart_items :: "RadarChartItem list"

record ParsedEdgeData =
  overview_section :: "StatRow list"
  skating_speed_section :: "StatRow list"
  skating_distance_section :: "StatRow list"
  shot_speed_section :: "StatRow list"
  shot_location_section :: pyval
  zonetime_section :: "StatRow list"
  radar_chart :: "RadarChartData option"

text \<open>\<open>ParsedEdgeData()\<close>: every list empty, no chart.\<close>

definition empty_parsed :: ParsedEdgeData where
  "empty_parsed = \<lparr> overview_section = [], skating_speed_section = [],
     skating_distance_section = [], shot_speed_section = [],
     shot_location_section = PList [], zonetime_section = [], radar_chart = None \<rparr>"

text \<open>Python truth value of an object, as tested by \<open>if x:\<close>.\<close>

fun truthy :: "pyval \<Rightarrow> bool" where
  "truthy PNone = False"
| "truthy (PBool b) = b"
| "truthy (PInt n) = (n \<noteq> 0)"
| "truthy (PFloat f) = (f \<noteq> Finite 0)"
| "truthy (PStr s) = (s \<noteq> [])"
| "truthy (PList xs) = (xs \<noteq> [])"
| "truthy (PDict kvs) = (kvs \<noteq> [])"
| "truthy (PRow r) = True"

section \<open>Aggregate merger (parsers.py, merge\_parsed\_data)\<close>

text \<open>
  The source assigns into \<open>existing\<close> slot by slot and returns it; the model returns
  the updated record. A dataclass instance is always true, so \<open>if new.radar_chart\<close>
  tests for \<open>None\<close>.
\<close>

definition merge_parsed_data :: "ParsedEdgeData \<Rightarrow> ParsedEdgeData \<Rightarrow> ParsedEdgeData" where
  "merge_parsed_data existing new =
    (let e1 = (if overview_section new \<noteq> []
               then existing\<lparr>overview_section := overview_section new\<rparr> else existing);
         e2 = (if skating_speed_section new \<noteq> []
               then e1\<lparr>skating_speed_section := skating_speed_section new\<rparr> else e1);
         e3 = (if skating_distance_section new \<noteq> []
               then e2\<lparr>skating_distance_section := skating_distance_section new\<rparr> else e2);
         e4 = (if shot_speed_section new \<noteq> []
               then e3\<lparr>shot_speed_section := shot_speed_section new\<rparr> else e3);
         e5 = (if truthy (shot_location_section new)
               then e4\<lparr>shot_location_section := shot_location_section new\<rparr> else e4);
         e6 = (if zonetime_section new \<noteq> []
               then e5\<lparr>zonetime_section := zonetime_section new\<rparr> else e5);
         e7 = (if radar_chart new \<noteq> None
               then e6\<lparr>radar_chart := radar_chart new\<rparr> else e6)
     in e7)"

section \<open>Python strings and \<open>float()\<close>\<close>

text \<open>
  Text is a list of 8-bit characters read as code points below 256. \<open>py_isspace\<close> is
  the white space that \<open>str.strip()\<close> removes there; \<open>float()\<close> removes less (not the
  separators 28 to 31). Among these code points only \<open>0\<close> to \<open>9\<close> are decimal digits.
\<close>

definition py_isspace :: "char \<Rightarrow> bool" where
  "py_isspace c = (let n = (of_char c :: nat) in
     (9 \<le> n \<and> n \<le> 13) \<or> (28 \<le> n \<and> n \<le> 32) \<or> n = 133 \<or> n = 160)"

definition float_isspace :: "char \<Rightarrow> bool" where
  "float_isspace c = (let n = (of_char c :: nat) in
     (9 \<le> n \<and> n \<le> 13) \<or> n = 32 \<or> n = 133 \<or> n = 160)"

definition is_digit :: "char \<Rightarrow> bool" where
  "is_digit c = (let n = (of_char c :: nat) in 48 \<le> n \<and> n \<le> 57)"

definition strip_with :: "(char \<Rightarrow> bool) \<Rightarrow> string \<Rightarrow> string" where
  "strip_with sp s = rev (dropWhile sp (rev (dropWhile sp s)))"

text \<open>\<open>s.strip()\<close>\<close>

definition py_strip :: "string \<Rightarrow> string" where
  "py_strip = strip_with py_isspace"

text \<open>\<open>s.replace(c, "")\<close> for a one-character \<open>c\<close>\<close>

definition py_replace_char :: "char \<Rightarrow> string \<Rightarrow> string" where
  "py_replace_char c s = filter (\<lambda>x. x \<noteq> c) s"

definition to_lower :: "char \<Rightarrow> char" where
  "to_lower c = (let n = (of_char c :: nat) in
     if 65 \<le> n \<and> n \<le> 90 then char_of (n + 32) else c)"

definition digits_val :: "string \<Rightarrow> nat" where
  "digits_val ds = foldl (\<lambda>a c. 10 * a + ((of_char c :: nat) - 48)) 0 ds"

text \<open>
  \<open>float(s)\<close> on a string, after CPython: underscores are accepted between two digits only
  and removed; white space is stripped at both ends; then an optional sign and either
  \<open>inf\<close>, \<open>infinity\<close>, \<open>nan\<close> in any case, or digits with an optional point and an
  optional exponent. \<open>None\<close> is \<open>ValueError\<close>.
\<close>

fun drop_underscores :: "char \<Rightarrow> string \<Rightarrow> string option" where
  "drop_underscores prev [] = (if prev = CHR ''_'' then None else Some [])"
| "drop_underscores prev (c # cs) =
     (if c = CHR ''_''
      then (if is_digit prev then drop_underscores c cs else None)
      else if prev = CHR ''_'' \<and> \<not> is_digit c then None
      else map_option (Cons c) (drop_underscores c cs))"

definition scale10 :: "nat \<Rightarrow> int \<Rightarrow> rat" where
  "scale10 m k = (if 0 \<le> k then of_nat m * 10 ^ nat k else of_nat m / 10 ^ nat (- k))"

definition float_exponent :: "string \<Rightarrow> int option" where
  "float_exponent r =
     (case r of
        [] \<Rightarrow> Some 0
      | e # t \<Rightarrow>
          if e = CHR ''e'' \<or> e = CHR ''E'' then
            (let (neg, ds) = (case t of
                                [] \<Rightarrow> (False, t)
                              | c # t' \<Rightarrow> if c = CHR ''-'' then (True, t')
                                          else if c = CHR ''+'' then (False, t')
                                          else (False, t))
             in if ds \<noteq> [] \<and> list_all is_digit ds
                then Some (if neg then - int (digits_val ds) else int (digits_val ds))
                else None)
          else None)"

definition float_number :: "string \<Rightarrow> rat option" where
  "float_number s =
     (let ip = takeWhile is_digit s;
          r1 = dropWhile is_digit s;
          (fp, r2) = (case r1 of
                        [] \<Rightarrow> ([], r1)
                      | c # t \<Rightarrow> if c = CHR ''.''
                                 then (takeWhile is_digit t, dropWhile is_digit t)
                                 else ([], r1))
      in if ip = [] \<and> fp = [] then None
         else (case float_exponent r2 of
                 None \<Rightarrow> None
               | Some e \<Rightarrow> Some (scale10 (digits_val (ip @ fp)) (e - int (length fp)))))"

definition float_abs :: "string \<Rightarrow> pyfloat option" where
  "float_abs s =
     (let l = map to_lower s in
      if l = ''inf'' \<or> l = ''infinity'' then Some PosInf
      else if l = ''nan'' then Some NaN
      else map_option Finite (float_number s))"

fun float_neg :: "pyfloat \<Rightarrow> pyfloat" where
  "float_neg (Finite q) = Finite (- q)"
| "float_neg PosInf = NegInf"
| "float_neg NegInf = PosInf"
| "float_neg NaN = NaN"

definition py_float :: "string \<Rightarrow> pyfloat option" where
  "py_float s =
     (case drop_underscores (CHR 0x00) s of
        None \<Rightarrow> None
      | Some t \<Rightarrow>
          (case strip_with float_isspace t of
             [] \<Rightarrow> None
           | c # r \<Rightarrow>
               if c = CHR ''-'' then map_option float_neg (float_abs r)
               else if c = CHR ''+'' then float_abs r
               else float_abs (c # r)))"

section \<open>Numeric parsing (parsers.py, convert\_to\_float and safe\_convert)\<close>

text \<open>
  Both catch the \<open>ValueError\<close> of \<open>float\<close> and return \<open>None\<close>; the argument is always
  a string, so nothing else is raised.
\<close>

definition convert_to_float :: "string \<Rightarrow> pyfloat option" where
  "convert_to_float text =
     py_float (py_strip (py_replace_char (CHR '','') (py_replace_char (CHR ''%'') text)))"

definition safe_convert :: "string \<Rightarrow> pyfloat option" where
  "safe_convert text = py_float text"

section \<open>Exceptions and operations on Python values\<close>

text \<open>A raised exception is the \<open>Inl\<close> of a result; \<open>rbind\<close> runs the next statement.\<close>

datatype error = TypeError | AttributeError | KeyError | IndexError | ValueError
  | OverflowError | JSONDecodeError | RecursionError

definition rbind :: "error + 'a \<Rightarrow> ('a \<Rightarrow> error + 'b) \<Rightarrow> error + 'b" where
  "rbind m f = (case m of Inl e \<Rightarrow> Inl e | Inr x \<Rightarrow> f x)"

text \<open>\<open>xs[i]\<close> on a list, for an index that is not negative\<close>

definition py_index :: "'a list \<Rightarrow> nat \<Rightarrow> error + 'a" where
  "py_index xs i = (if i < length xs then Inr (xs ! i) else Inl IndexError)"

text \<open>\<open>n in h\<close> on two strings\<close>

fun is_infix :: "string \<Rightarrow> string \<Rightarrow> bool" where
  "is_infix n [] = (n = [])"
| "is_infix n (c # cs) = (take (length n) (c # cs) = n \<or> is_infix n cs)"

text \<open>\<open>key in v\<close> for a string \<open>key\<close>\<close>

fun py_contains :: "string \<Rightarrow> pyval \<Rightarrow> error + bool" where
  "py_contains key (PDict kvs) = Inr (map_of kvs key \<noteq> None)"
| "py_contains key (PList xs) = Inr (PStr key \<in> set xs)"
| "py_contains key (PStr s) = Inr (is_infix key s)"
| "py_contains key v = Inl TypeError"

text \<open>\<open>v[key]\<close> for a string \<open>key\<close>\<close>

fun py_getitem_key :: "pyval \<Rightarrow> string \<Rightarrow> error + pyval" where
  "py_getitem_key (PDict kvs) key = (case map_of kvs key of Some x \<Rightarrow> Inr x | None \<Rightarrow> Inl KeyError)"
| "py_getitem_key v key = Inl TypeError"

text \<open>\<open>v[0]\<close>; the keys of a dict read from JSON are strings, so \<open>0\<close> is never one\<close>

fun py_getitem0 :: "pyval \<Rightarrow> error + pyval" where
  "py_getitem0 (PList []) = Inl IndexError"
| "py_getitem0 (PList (x # xs)) = Inr x"
| "py_getitem0 (PStr []) = Inl IndexError"
| "py_getitem0 (PStr (c # cs)) = Inr (PStr [c])"
| "py_getitem0 (PDict kvs) = Inl KeyError"
| "py_getitem0 v = Inl TypeError"

text \<open>\<open>v.get(key, d)\<close>: only a dict has the method\<close>

fun py_get :: "pyval \<Rightarrow> string \<Rightarrow> pyval \<Rightarrow> error + pyval" where
  "py_get (PDict kvs) key d = Inr (case map_of kvs key of Some x \<Rightarrow> x | None \<Rightarrow> d)"
| "py_get v key d = Inl AttributeError"

text \<open>the items that \<open>for item in v\<close> visits\<close>

fun py_iter :: "pyval \<Rightarrow> error + pyval list" where
  "py_iter (PList xs) = Inr xs"
| "py_iter (PStr s) = Inr (map (\<lambda>c. PStr [c]) s)"
| "py_iter (PDict kvs) = Inr (map (\<lambda>kv. PStr (fst kv)) kvs)"
| "py_iter v = Inl TypeError"

text \<open>\<open>len(v)\<close>\<close>

fun py_len :: "pyval \<Rightarrow> error + nat" where
  "py_len (PStr s) = Inr (length s)"
| "py_len (PList xs) = Inr (length xs)"
| "py_len (PDict kvs) = Inr (length kvs)"
| "py_len v = Inl TypeError"

text \<open>
  \<open>float(v)\<close>: an int converts unless it would round to \<open>2 ^ 1024\<close> or beyond, a string
  goes through \<open>py_float\<close>, \<open>None\<close> and containers are a \<open>TypeError\<close>.
\<close>

fun py_float_of :: "pyval \<Rightarrow> error + pyfloat" where
  "py_float_of (PInt n) =
     (if \<bar>n\<bar> < 2 ^ 1024 - 2 ^ 970 then Inr (Finite (of_int n)) else Inl OverflowError)"
| "py_float_of (PFloat f) = Inr f"
| "py_float_of (PBool b) = Inr (Finite (if b then 1 else 0))"
| "py_float_of (PStr s) = (case py_float s of Some f \<Rightarrow> Inr f | None \<Rightarrow> Inl ValueError)"
| "py_float_of v = Inl TypeError"

section \<open>The parsed markup (BeautifulSoup objects)\<close>

text \<open>
  A tag has a name, the list of its classes (bs4 splits the \<open>class\<close> attribute), its other
  attributes, and its children. Strings that \<open>get_text\<close> skips, such as comments, are
  \<open>Comment\<close>. The soup itself is the root tag.
\<close>

datatype node =
    Tag string "string list" "(string \<times> string) list" "node list"
  | NavigableString string
  | Comment string

text \<open>all nodes below a node, in document order\<close>

fun descendants :: "node \<Rightarrow> node list" where
  "descendants (Tag n cs ats ks) = concat (map (\<lambda>k. k # descendants k) ks)"
| "descendants (NavigableString s) = []"
| "descendants (Comment s) = []"

text \<open>the same, each with its ancestors, nearest first\<close>

fun with_ancestors :: "node list \<Rightarrow> node \<Rightarrow> (node \<times> node list) list" where
  "with_ancestors anc (Tag n cs ats ks) =
     concat (map (\<lambda>k. (k, Tag n cs ats ks # anc) # with_ancestors (Tag n cs ats ks # anc) k) ks)"
| "with_ancestors anc (NavigableString s) = []"
| "with_ancestors anc (Comment s) = []"

fun named :: "string list \<Rightarrow> node \<Rightarrow> bool" where
  "named ns (Tag n cs ats ks) = (n \<in> set ns)"
| "named ns k = False"

fun has_class :: "string \<Rightarrow> node \<Rightarrow> bool" where
  "has_class c (Tag n cs ats ks) = (c \<in> set cs)"
| "has_class c k = False"

text \<open>\<open>el[a]\<close> when \<open>el.has_attr(a)\<close>, else \<open>None\<close>\<close>

fun get_attr :: "node \<Rightarrow> string \<Rightarrow> string option" where
  "get_attr (Tag n cs ats ks) a = map_of ats a"
| "get_attr k a = None"

definition first :: "'a list \<Rightarrow> 'a option" where
  "first xs = (case xs of [] \<Rightarrow> None | x # _ \<Rightarrow> Some x)"

text \<open>\<open>el.find_all(names)\<close>, \<open>el.find(name)\<close> and \<open>el.find(name, id=i)\<close>\<close>

definition find_all :: "string list \<Rightarrow> node \<Rightarrow> node list" where
  "find_all ns t = filter (named ns) (descendants t)"

definition find_tag :: "string \<Rightarrow> node \<Rightarrow> node option" where
  "find_tag n t = first (find_all [n] t)"

definition find_by_id :: "string \<Rightarrow> string \<Rightarrow> node \<Rightarrow> node option" where
  "find_by_id n i t =
     first (filter (\<lambda>k. named [n] k \<and> get_attr k ''id'' = Some i) (descendants t))"

text \<open>\<open>el.get_text(strip=True)\<close>: the stripped strings below the node, the empty ones left out\<close>

fun node_string :: "node \<Rightarrow> string list" where
  "node_string (NavigableString s) = [s]"
| "node_string k = []"

definition get_text_strip :: "node \<Rightarrow> string" where
  "get_text_strip t =
     concat (filter (\<lambda>s. s \<noteq> []) (map py_strip (concat (map node_string (descendants t)))))"

text \<open>CSS selection: \<open>table.table-hover\<close>, and the same table below the left column\<close>

definition is_hover_table :: "node \<Rightarrow> bool" where
  "is_hover_table k = (named [''table''] k \<and> has_class ''table-hover'' k)"

fun anc_chain :: "(node \<Rightarrow> bool) list \<Rightarrow> node list \<Rightarrow> bool" where
  "anc_chain [] anc = True"
| "anc_chain (p # ps) [] = False"
| "anc_chain (p # ps) (a # anc) = ((p a \<and> anc_chain ps anc) \<or> anc_chain (p # ps) anc)"

definition select_one_table :: "node \<Rightarrow> node option" where
  "select_one_table soup = first (filter is_hover_table (descendants soup))"

definition select_one_zone_table :: "node \<Rightarrow> node option" where
  "select_one_zone_table soup =
     first (map fst (filter
       (\<lambda>ka. is_hover_table (fst ka) \<and>
          anc_chain [\<lambda>a. named [''div''] a \<and> has_class ''table-responsive'' a,
                     \<lambda>a. named [''div''] a \<and> has_class ''col-lg-6'' a \<and> has_class ''col-md-6'' a]
                    (snd ka))
       (with_ancestors [] soup)))"

text \<open>
  The library calls the extractor makes: \<open>html.unescape\<close>, \<open>BeautifulSoup(html, "lxml")\<close>
  and \<open>json.loads\<close>, taken as parameters.
\<close>

record lib =
  unescape :: "string \<Rightarrow> string"
  BeautifulSoup :: "string \<Rightarrow> node"
  json_loads :: "string \<Rightarrow> error + pyval"

section \<open>Fragment extractor (parsers.py)\<close>

text \<open>
  One row of \<open>parse_table\<close>, from its cells: label, player value, and for four columns the
  league average and the percentile, the latter through \<open>safe_convert\<close> in the shot-speed
  section. The tooltip is read from the first \<open>span\<close> of the player-value cell.
\<close>

definition table_row :: "int \<Rightarrow> bool \<Rightarrow> node list \<Rightarrow> error + StatRow" where
  "table_row columns is_shot_speed cells =
     rbind (py_index cells 0) (\<lambda>c0.
     rbind (py_index cells 1) (\<lambda>c1.
     rbind (if columns = 4
            then rbind (py_index cells 2) (\<lambda>c2.
                 rbind (py_index cells 3) (\<lambda>c3.
                   Inr (convert_to_float (get_text_strip c2),
                        (let percentile_text = get_text_strip c3
                         in if is_shot_speed then safe_convert percentile_text
                            else convert_to_float percentile_text))))
            else Inr (None, None)) (\<lambda>lp.
       Inr \<lparr> stat_label = get_text_strip c0,
             player_value = convert_to_float (get_text_strip c1),
             league_average = fst lp,
             percentile = snd lp,
             tooltip = (case find_tag ''span'' c1 of
                          None \<Rightarrow> None
                        | Some span_el \<Rightarrow> get_attr span_el ''data-tooltip'') \<rparr>)))"

text \<open>the loop over the rows; \<open>rows_data\<close> is the list built so far\<close>

fun table_rows :: "int \<Rightarrow> bool \<Rightarrow> node list \<Rightarrow> StatRow list \<Rightarrow> error + StatRow list" where
  "table_rows columns is_shot_speed [] rows_data = Inr rows_data"
| "table_rows columns is_shot_speed (row # rows) rows_data =
     (let cells = find_all [''td'', ''th''] row in
      if columns \<le> int (length cells)
      then rbind (table_row columns is_shot_speed cells)
             (\<lambda>r. table_rows columns is_shot_speed rows (rows_data @ [r]))
      else table_rows columns is_shot_speed rows rows_data)"

definition parse_table :: "node \<Rightarrow> int \<Rightarrow> bool \<Rightarrow> error + StatRow list" where
  "parse_table soup columns is_shot_speed =
     (case select_one_table soup of
        None \<Rightarrow> Inr []
      | Some table \<Rightarrow>
          (case find_tag ''tbody'' table of
             None \<Rightarrow> Inr []
           | Some tbody \<Rightarrow> table_rows columns is_shot_speed (find_all [''tr''] tbody) []))"

text \<open>\<open>parse_zone_time_table\<close>: label and player value of every row with two cells or more\<close>

fun zone_rows :: "node list \<Rightarrow> StatRow list \<Rightarrow> StatRow list" where
  "zone_rows [] rows_data = rows_data"
| "zone_rows (row # rows) rows_data =
     (case find_all [''td'', ''th''] row of
        c0 # c1 # cells \<Rightarrow>
          zone_rows rows (rows_data @
            [\<lparr> stat_label = get_text_strip c0,
               player_value = convert_to_float (get_text_strip c1),
               league_average = None, percentile = None, tooltip = None \<rparr>])
      | _ \<Rightarrow> zone_rows rows rows_data)"

definition parse_zone_time_table :: "node \<Rightarrow> StatRow list" where
  "parse_zone_time_table soup =
     (case select_one_zone_table soup of
        None \<Rightarrow> []
      | Some table \<Rightarrow>
          (case find_tag ''tbody'' table of
             None \<Rightarrow> []
           | Some tbody \<Rightarrow> zone_rows (find_all [''tr''] tbody) []))"

text \<open>
  The loop of \<open>parse_radar_chart\<close> over the chart items. Only the \<open>ValueError\<close> of
  \<open>float\<close> is caught (the value is then \<open>0.0\<close>); every other exception leaves the loop.
\<close>

fun radar_items :: "pyval list \<Rightarrow> RadarChartItem list \<Rightarrow> error + RadarChartItem list" where
  "radar_items [] items = Inr items"
| "radar_items (item # rest) items =
     rbind (case rbind (py_get item ''value'' (PInt 0)) py_float_of of
              Inl ValueError \<Rightarrow> Inr (Finite 0)
            | Inl e \<Rightarrow> Inl e
            | Inr f \<Rightarrow> Inr f) (\<lambda>v.
     rbind (py_get item ''valueLabel'' (PStr [])) (\<lambda>vl.
     rbind (py_get item ''axisLabel'' (PStr [])) (\<lambda>al.
       radar_items rest (items @ [\<lparr> axis_label = al, item_value = v, value_label = vl \<rparr>]))))"

text \<open>
  \<open>parse_radar_chart\<close>: an exception of \<open>json.loads\<close> is caught and leaves \<open>{}\<close>; what
  follows the \<open>try\<close> is not guarded.
\<close>

definition parse_radar_chart :: "lib \<Rightarrow> node \<Rightarrow> error + RadarChartData option" where
  "parse_radar_chart L soup =
     (case find_by_id ''sl-webc-radar-chart'' ''overview-radarchart'' soup of
        None \<Rightarrow> Inr None
      | Some chart_el \<Rightarrow>
          (case get_attr chart_el ''data-json'' of
             None \<Rightarrow> Inr None
           | Some a \<Rightarrow>
               (let chart_data = (case json_loads L (unescape L a) of
                                    Inl e \<Rightarrow> PDict []
                                  | Inr v \<Rightarrow> v)
                in rbind (py_contains ''chartData'' chart_data) (\<lambda>has.
                   if \<not> has then Inr None
                   else rbind (py_getitem_key chart_data ''chartData'') (\<lambda>cd.
                        if \<not> truthy cd then Inr None
                        else rbind (py_getitem0 cd) (\<lambda>c0.
                             rbind (py_get c0 ''data'' (PList [])) (\<lambda>data_list.
                             rbind (py_iter data_list) (\<lambda>its.
                             rbind (radar_items its []) (\<lambda>items.
                             rbind (py_get chart_data ''config'' (PDict [])) (\<lambda>cfg.
                               Inr (Some \<lparr> config = cfg, chart_items = items \<rparr>)))))))))))"

text \<open>the shot-location slot when the table is parsed instead of the chart\<close>

definition shot_location_table :: "node \<Rightarrow> error + pyval" where
  "shot_location_table soup = rbind (parse_table soup 4 False) (\<lambda>rows. Inr (PList (map PRow rows)))"

text \<open>
  \<open>parse_html_content\<close>. Each branch ends with a debug message whose text takes the
  \<open>len\<close> of the slot just filled; for the shot-location slot that can raise.
\<close>

definition parse_html_content :: "lib \<Rightarrow> string \<Rightarrow> string \<Rightarrow> error + ParsedEdgeData" where
  "parse_html_content L html target =
     (let parsed = empty_parsed;
          soup = BeautifulSoup L (unescape L html)
      in if target = ''#overview-section-content'' then
           rbind (parse_table soup 4 False) (\<lambda>rows.
           rbind (parse_radar_chart L soup) (\<lambda>rc.
             Inr (parsed\<lparr>overview_section := rows, radar_chart := rc\<rparr>)))
         else if target = ''#skatingspeed-section-content'' then
           rbind (parse_table soup 4 False) (\<lambda>rows.
             Inr (parsed\<lparr>skating_speed_section := rows\<rparr>))
         else if target = ''#skatingdistance-section-content'' then
           rbind (parse_table soup 4 False) (\<lambda>rows.
             Inr (parsed\<lparr>skating_distance_section := rows\<rparr>))
         else if target = ''#shotspeed-section-content'' then
           rbind (parse_table soup 4 True) (\<lambda>rows.
             Inr (parsed\<lparr>shot_speed_section := rows\<rparr>))
         else if target = ''#shotlocation-section-content'' then
           rbind (case find_tag ''sl-webc-shot-chart'' soup of
                    None \<Rightarrow> shot_location_table soup
                  | Some shot_chart \<Rightarrow>
                      (case get_attr shot_chart ''data-json'' of
                         None \<Rightarrow> shot_location_table soup
                       | Some a \<Rightarrow>
                           (case rbind (json_loads L (unescape L a))
                                   (\<lambda>data. py_get data ''chartData'' (PList [])) of
                              Inl e \<Rightarrow> shot_location_table soup
                            | Inr v \<Rightarrow> Inr v))) (\<lambda>sec.
           rbind (py_len sec) (\<lambda>n.
             Inr (parsed\<lparr>shot_location_section := sec\<rparr>)))
         else if target = ''#zonetime-section-content'' then
           Inr (parsed\<lparr>zonetime_section := parse_zone_time_table soup\<rparr>)
         else Inr parsed)"

section \<open>Session driver (client.py)\<close>

text \<open>
  The client object. \<open>saved\<close> holds the raw messages that \<open>_save_raw_message\<close> writes to
  disk when \<open>save_messages\<close> is set.
\<close>

record EdgeNHLClient =
  cookies :: "(string \<times> string) list"
  parsed_data :: ParsedEdgeData
  rate_limit_seconds :: rat
  save_messages :: bool
  subsequent_sent :: bool
  received_targets :: "string set"
  expected_targets :: "string set"
  saved :: "string list"

text \<open>\<open>EdgeNHLClient.__init__\<close>\<close>

definition init_client :: "(string \<times> string) list \<Rightarrow> rat \<Rightarrow> bool \<Rightarrow> EdgeNHLClient" where
  "init_client cks rate save =
     \<lparr> cookies = cks, parsed_data = empty_parsed, rate_limit_seconds = rate,
       save_messages = save, subsequent_sent = False,
       received_targets = {},
       expected_targets = {''#overview-section-content'', ''#skatingspeed-section-content'',
         ''#skatingdistance-section-content'', ''#shotspeed-section-content'',
         ''#shotlocation-section-content'', ''#zonetime-section-content''},
       saved = [] \<rparr>"

text \<open>
  The transport as the driver sees it: the messages it sent and how often it called
  \<open>close\<close>; the inbound side is the list of messages the connection yields.
\<close>

datatype WSMessage = TEXT string | BINARY | PING | PONG | CLOSE | CLOSING | CLOSED | ERROR

record websocket =
  sent :: "pyval list"
  close_calls :: nat

definition send_json :: "websocket \<Rightarrow> pyval \<Rightarrow> websocket" where
  "send_json ws msg = ws\<lparr>sent := sent ws @ [msg]\<rparr>"

definition ws_close :: "websocket \<Rightarrow> websocket" where
  "ws_close ws = ws\<lparr>close_calls := close_calls ws + 1\<rparr>"

text \<open>\<open>v.strip()\<close>: only a string has the method\<close>

fun py_str_strip :: "pyval \<Rightarrow> error + string" where
  "py_str_strip (PStr s) = Inr (py_strip s)"
| "py_str_strip v = Inl AttributeError"

text \<open>
  The call \<open>parse_html_content(html_content, target)\<close> of the driver. A \<open>html\<close> field
  that is a list or an object passes the \<open>len\<close> before it and reaches the HTML parser,
  whose behaviour on it is not followed: the model stops with \<open>TypeError\<close>.
\<close>

fun parse_segment :: "lib \<Rightarrow> pyval \<Rightarrow> string \<Rightarrow> error + ParsedEdgeData" where
  "parse_segment L (PStr h) target = parse_html_content L h target"
| "parse_segment L v target = Inl TypeError"

text \<open>
  \<open>_handle_text_message\<close>. Only \<open>JSONDecodeError\<close> is caught. The arguments of the debug
  message are computed before the target is looked up, so \<open>len(html_content)\<close> can raise.
\<close>

definition handle_text_message ::
  "lib \<Rightarrow> EdgeNHLClient \<Rightarrow> websocket \<Rightarrow> string \<Rightarrow> error + (EdgeNHLClient \<times> websocket)" where
  "handle_text_message L c ws data_str =
     (let c1 = (if save_messages c then c\<lparr>saved := saved c @ [data_str]\<rparr> else c)
      in case json_loads L data_str of
           Inl JSONDecodeError \<Rightarrow> Inr (c1, ws)
         | Inl e \<Rightarrow> Inl e
         | Inr data \<Rightarrow>
             rbind (py_get data ''type'' PNone) (\<lambda>msg_type.
             if msg_type = PStr ''html'' then
               rbind (py_get data ''html'' (PStr [])) (\<lambda>html_content.
               rbind (py_get data ''target'' (PStr [])) (\<lambda>t.
               rbind (py_str_strip t) (\<lambda>target.
               rbind (py_len html_content) (\<lambda>n.
                 (let hit = (target \<in> expected_targets c1);
                      c2 = (if hit
                            then c1\<lparr>received_targets := insert target (received_targets c1)\<rparr>
                            else c1)
                  in if hit \<and> expected_targets c2 \<subseteq> received_targets c2
                     then Inr (c2, ws_close ws)
                     else rbind (parse_segment L html_content target) (\<lambda>parsed_segment.
                            Inr (c2\<lparr>parsed_data :=
                                       merge_parsed_data (parsed_data c2) parsed_segment\<rparr>,
                                 ws)))))))
             else Inr (c1, ws)))"

text \<open>\<open>get_parsed_data\<close> and \<open>reset_parsed_data\<close>\<close>

definition get_parsed_data :: "EdgeNHLClient \<Rightarrow> ParsedEdgeData" where
  "get_parsed_data c = parsed_data c"

definition reset_parsed_data :: "EdgeNHLClient \<Rightarrow> EdgeNHLClient" where
  "reset_parsed_data c = c\<lparr>parsed_data := empty_parsed\<rparr>"

text \<open>The outbound requests.\<close>

definition base_params :: "string \<Rightarrow> pyval" where
  "base_params player_id =
     PDict [(''type'', PStr ''skaters''), (''player'', PStr player_id),
            (''rootName'', PStr ''skatersProfiles''), (''source'', PStr ''players'')]"

definition action_msg :: "string \<Rightarrow> string \<Rightarrow> pyval \<Rightarrow> pyval" where
  "action_msg player_id action data =
     PDict [(''type'', PStr ''action''),
            (''event'', PDict [(''domain'', PStr ''edge.nhl.com''),
                               (''uri'', PStr (''/en/skater/'' @ player_id)),
                               (''action'', PStr action),
                               (''data'', data)])]"

definition initial_message :: "string \<Rightarrow> pyval" where
  "initial_message player_id =
     action_msg player_id ''getLabel'' (PDict [(''params'', base_params player_id)])"

definition create_profile_messages :: "string \<Rightarrow> pyval \<Rightarrow> pyval list" where
  "create_profile_messages player_id params =
     map (\<lambda>rt. action_msg player_id ''load''
                 (PDict [(''renderFunction'', PStr (fst rt)), (''target'', PStr (snd rt)),
                         (''params'', params),
                         (''callbackFunction'', PStr ''initializeDataElements'')]))
         [(''renderPlayerCard'', ''#profile-playercard''),
          (''renderProfilePlayerSection'', ''#profile-section'')]"

definition create_section_messages ::
  "string \<Rightarrow> (string \<times> string \<times> (string \<times> pyval) list) list \<Rightarrow> pyval list" where
  "create_section_messages player_id section_configs =
     map (\<lambda>cfg. action_msg player_id ''load''
                  (PDict [(''renderFunction'', PStr ''renderProfileContent''),
                          (''target'', PStr (fst (snd cfg))),
                          (''params'', PDict ([(''sectionName'', PStr (fst cfg)),
                                               (''units'', PStr ''imperial''),
                                               (''season'', PStr ''20242025''),
                                               (''stage'', PStr ''regular''),
                                               (''feed'', PStr ''skatersProfiles''),
                                               (''id'', PStr player_id)] @ snd (snd cfg))),
                          (''callbackFunction'', PStr ''runClientFns'')]))
         section_configs"

definition generate_subsequent_messages :: "string \<Rightarrow> pyval list" where
  "generate_subsequent_messages player_id =
     create_profile_messages player_id (base_params player_id) @
     create_section_messages player_id
       [(''overview'', ''#overview-section-content'', []),
        (''skatingspeed'', ''#skatingspeed-section-content'', []),
        (''skatingdistance'', ''#skatingdistance-section-content'', [(''manpower'', PStr ''all'')]),
        (''shotspeed'', ''#shotspeed-section-content'', []),
        (''shotlocation'', ''#shotlocation-section-content'',
           [(''shootingmetrics'', PStr ''shots''), (''shotlocation'', PStr ''all'')]),
        (''zonetime'', ''#zonetime-section-content'', [(''manpower'', PStr ''all'')])]"

text \<open>
  The loop \<open>async for msg in ws\<close>. The connection yields nothing more once the driver has
  closed it. A text message goes to the handler, whose exception ends the session; a
  closed, closing or error message ends the loop; any other message is skipped.
\<close>

fun listen ::
  "lib \<Rightarrow> EdgeNHLClient \<Rightarrow> websocket \<Rightarrow> WSMessage list \<Rightarrow> error + (EdgeNHLClient \<times> websocket)" where
  "listen L c ws [] = Inr (c, ws)"
| "listen L c ws (msg # msgs) =
     (if 0 < close_calls ws then Inr (c, ws)
      else case msg of
             TEXT d \<Rightarrow> rbind (handle_text_message L c ws d) (\<lambda>cw. listen L (fst cw) (snd cw) msgs)
           | CLOSED \<Rightarrow> Inr (c, ws)
           | CLOSING \<Rightarrow> Inr (c, ws)
           | ERROR \<Rightarrow> Inr (c, ws)
           | _ \<Rightarrow> listen L c ws msgs)"

text \<open>
  \<open>connect_and_communicate\<close> on a connection that opens: the handshake, the eight requests,
  then the loop over the inbound messages. The URL, the headers and the cookies go to the
  connection and the pauses between messages are timing; neither changes the client.
\<close>

definition connect_and_communicate ::
  "lib \<Rightarrow> EdgeNHLClient \<Rightarrow> string \<Rightarrow> WSMessage list \<Rightarrow> error + (EdgeNHLClient \<times> websocket)" where
  "connect_and_communicate L c player_id inbound =
     (let ws0 = \<lparr> sent = [], close_calls = 0 \<rparr>;
          ws1 = send_json ws0 (initial_message player_id);
          ws2 = foldl send_json ws1 (generate_subsequent_messages player_id);
          c1 = c\<lparr>subsequent_sent := True\<rparr>
      in listen L c1 ws2 inbound)"

section \<open>Predicates used in the statements\<close>




section \<open>Sample values\<close>

definition sample_row :: StatRow where
  "sample_row = \<lparr> stat_label = ''Shots on Goal'', player_value = Some (Finite 100),
     league_average = Some (Finite 50), percentile = Some (Finite 80), tooltip = None \<rparr>"

definition sample_aggregate :: ParsedEdgeData where
  "sample_aggregate = \<lparr> overview_section = [sample_row], skating_speed_section = [sample_row],
     skating_distance_section = [sample_row], shot_speed_section = [sample_row],
     shot_location_section = PList [PInt 1], zonetime_section = [sample_row],
     radar_chart = Some \<lparr> config = PDict [], chart_items = [] \<rparr> \<rparr>"

text \<open>
  A shot-speed fragment with one row whose percentile cell reads \<open>84%\<close>, as the HTML
  parser delivers it, and the library at the inputs of the examples: \<open>html.unescape\<close>
  leaves a text without \<open>&\<close> as it is.
\<close>

definition sample_cell :: "string \<Rightarrow> node" where
  "sample_cell txt = Tag ''td'' [] [] [NavigableString txt]"

definition sample_document :: "node list \<Rightarrow> node" where
  "sample_document body = Tag ''[document]'' [] [] [Tag ''html'' [] [] [Tag ''body'' [] [] body]]"

definition speed_markup :: string where
  "speed_markup = ''<table class=table-hover><tbody><tr><td>Top Shot Speed (mph)</td>'' @
                  ''<td>95.12</td><td>88.50</td><td>84%</td></tr></tbody></table>''"

definition speed_soup :: node where
  "speed_soup = sample_document
     [Tag ''table'' [''table-hover''] []
        [Tag ''tbody'' [] []
           [Tag ''tr'' [] []
              [sample_cell ''Top Shot Speed (mph)'', sample_cell ''95.12'',
               sample_cell ''88.50'', sample_cell ''84%'']]]]"

definition speed_lib :: lib where
  "speed_lib = \<lparr> unescape = (\<lambda>s. s),
                 BeautifulSoup = (\<lambda>h. if h = speed_markup then speed_soup else sample_document []),
                 json_loads = (\<lambda>s. Inl JSONDecodeError) \<rparr>"

text \<open>
  An overview fragment whose radar chart carries the JSON text \<open>null\<close>, which
  \<open>json.loads\<close> reads as \<open>None\<close>.
\<close>

definition radar_null_markup :: string where
  "radar_null_markup =
     ''<sl-webc-radar-chart id=overview-radarchart data-json=null></sl-webc-radar-chart>''"

definition radar_null_soup :: node where
  "radar_null_soup = sample_document
     [Tag ''sl-webc-radar-chart'' [] [(''id'', ''overview-radarchart''), (''data-json'', ''null'')] []]"

definition radar_null_lib :: lib where
  "radar_null_lib =
     \<lparr> unescape = (\<lambda>s. s),
       BeautifulSoup = (\<lambda>h. if h = radar_null_markup then radar_null_soup else sample_document []),
       json_loads = (\<lambda>s. if s = ''null'' then Inr PNone else Inl JSONDecodeError) \<rparr>"

text \<open>
  A shot-location fragment with a chart payload and a table: \<open>json.loads\<close> reads the
  attribute as an object whose \<open>chartData\<close> is a list of one point.
\<close>

definition chart_json :: string where
  \<open>chart_json = ''{"chartData":[{"x":12,"y":-3}]}''\<close>

definition chart_markup :: string where
  \<open>chart_markup = ''<sl-webc-shot-chart data-json='' @ [CHR 0x27] @ chart_json @ [CHR 0x27] @
     ''></sl-webc-shot-chart><table class=table-hover><tbody><tr><td>Shots</td>'' @
     ''<td>10</td><td>8</td><td>70</td></tr></tbody></table>''\<close>

definition shots_table :: node where
  "shots_table =
     Tag ''table'' [''table-hover''] []
       [Tag ''tbody'' [] []
          [Tag ''tr'' [] []
             [sample_cell ''Shots'', sample_cell ''10'', sample_cell ''8'', sample_cell ''70'']]]"

definition chart_soup :: node where
  "chart_soup = sample_document
     [Tag ''sl-webc-shot-chart'' [] [(''data-json'', chart_json)] [], shots_table]"

definition chart_lib :: lib where
  "chart_lib =
     \<lparr> unescape = (\<lambda>s. s),
       BeautifulSoup = (\<lambda>h. if h = chart_markup then chart_soup else sample_document [shots_table]),
       json_loads = (\<lambda>s. if s = chart_json
                           then Inr (PDict [(''chartData'',
                                   PList [PDict [(''x'', PInt 12), (''y'', PInt (- 3))]])])
                           else Inl JSONDecodeError) \<rparr>"

text \<open>
  Two inbound frames as the server sends them, an overview fragment and a zone-time
  fragment, with the values \<open>json.loads\<close> and the HTML parser give for them.
\<close>

definition overview_markup :: string where
  "overview_markup = ''<table class=table-hover><tbody><tr><td>Shots</td>'' @
                     ''<td>10</td><td>8</td><td>70</td></tr></tbody></table>''"

definition overview_frame :: string where
  \<open>overview_frame = ''{"type":"html","target":"#overview-section-content","html":"'' @
                    overview_markup @ ''"}''\<close>

definition zone_markup :: string where
  \<open>zone_markup = ''<div class='col-lg-6 col-md-6'><div class=table-responsive>'' @
                 ''<table class=table-hover><tbody><tr><td>Offensive Zone</td>'' @
                 ''<td>49.8%</td></tr></tbody></table></div></div>''\<close>

definition zone_frame :: string where
  \<open>zone_frame = ''{"type":"html","target":"#zonetime-section-content","html":"'' @
                zone_markup @ ''"}''\<close>

definition zone_soup :: node where
  "zone_soup = sample_document
     [Tag ''div'' [''col-lg-6'', ''col-md-6''] []
        [Tag ''div'' [''table-responsive''] []
           [Tag ''table'' [''table-hover''] []
              [Tag ''tbody'' [] []
                 [Tag ''tr'' [] []
                    [sample_cell ''Offensive Zone'', sample_cell ''49.8%'']]]]]]"

definition client_lib :: lib where
  "client_lib =
     \<lparr> unescape = (\<lambda>s. s),
       BeautifulSoup = (\<lambda>h. if h = overview_markup then sample_document [shots_table]
                             else if h = zone_markup then zone_soup
                             else sample_document []),
       json_loads = (\<lambda>s. if s = overview_frame
                           then Inr (PDict [(''type'', PStr ''html''),
                                            (''target'', PStr ''#overview-section-content''),
                                            (''html'', PStr overview_markup)])
                           else if s = zone_frame
                           then Inr (PDict [(''type'', PStr ''html''),
                                            (''target'', PStr ''#zonetime-section-content''),
                                            (''html'', PStr zone_markup)])
                           else Inl JSONDecodeError) \<rparr>"

text \<open>a client that has received every expected target but the zone-time one\<close>

definition five_received :: EdgeNHLClient where
  "five_received = (init_client [] 1 False)
     \<lparr> received_targets := {''#overview-section-content'', ''#skatingspeed-section-content'',
          ''#skatingdistance-section-content'', ''#shotspeed-section-content'',
          ''#shotlocation-section-content''} \<rparr>"

definition fresh_ws :: websocket where
  "fresh_ws = \<lparr> sent = [], close_calls = 0 \<rparr>"

section \<open>Properties of \<open>float\<close> on strings\<close>

lemmas float_eval = convert_to_float_def safe_convert_def py_float_def py_strip_def strip_with_def
  py_replace_char_def float_abs_def float_number_def float_exponent_def scale10_def
  digits_val_def is_digit_def py_isspace_def float_isspace_def to_lower_def

























section \<open>Properties of the merger\<close>

lemma merge_slots:
  "overview_section (merge_parsed_data a s) =
     (if overview_section s \<noteq> [] then overview_section s else overview_section a)"
  "skating_speed_section (merge_parsed_data a s) =
     (if skating_speed_section s \<noteq> [] then skating_speed_section s else skating_speed_section a)"
  "skating_distance_section (merge_parsed_data a s) =
     (if skating_distance_section s \<noteq> [] then skating_distance_section s
      else skating_distance_section a)"
  "shot_speed_section (merge_parsed_data a s) =
     (if shot_speed_section s \<noteq> [] then shot_speed_section s else shot_speed_section a)"
  "shot_location_section (merge_parsed_data a s) =
     (if truthy (shot_location_section s) then shot_location_section s
      else shot_location_section a)"
  "zonetime_section (merge_parsed_data a s) =
     (if zonetime_section s \<noteq> [] then zonetime_section s else zonetime_section a)"
  "radar_chart (merge_parsed_data a s) =
     (if radar_chart s \<noteq> None then radar_chart s else radar_chart a)"
  "ParsedEdgeData.more (merge_parsed_data a s) = ParsedEdgeData.more a"
  by (simp_all add: merge_parsed_data_def Let_def)

text \<open>
  C4. For each of the seven slots: when the payload's slot is empty (the empty list, or no
  chart), merging leaves the aggregate's value of that slot as it was.
\<close>

theorem merge_never_erases:
  "(overview_section s = [] \<longrightarrow>
      overview_section (merge_parsed_data a s) = overview_section a) \<and>
   (skating_speed_section s = [] \<longrightarrow>
      skating_speed_section (merge_parsed_data a s) = skating_speed_section a) \<and>
   (skating_distance_section s = [] \<longrightarrow>
      skating_distance_section (merge_parsed_data a s) = skating_distance_section a) \<and>
   (shot_speed_section s = [] \<longrightarrow>
      shot_speed_section (merge_parsed_data a s) = shot_speed_section a) \<and>
   (shot_location_section s = PList [] \<longrightarrow>
      shot_location_section (merge_parsed_data a s) = shot_location_section a) \<and>
   (zonetime_section s = [] \<longrightarrow>
      zonetime_section (merge_parsed_data a s) = zonetime_section a) \<and>
   (radar_chart s = None \<longrightarrow>
      radar_chart (merge_parsed_data a s) = radar_chart a)"
  by (simp add: merge_slots)

theorem merge_never_erases_witness:
  "overview_section empty_parsed = [] \<and> skating_speed_section empty_parsed = [] \<and>
   skating_distance_section empty_parsed = [] \<and> shot_speed_section empty_parsed = [] \<and>
   shot_location_section empty_parsed = PList [] \<and> zonetime_section empty_parsed = [] \<and>
   radar_chart empty_parsed = None \<and>
   overview_section (merge_parsed_data sample_aggregate empty_parsed) = [sample_row] \<and>
   skating_speed_section (merge_parsed_data sample_aggregate empty_parsed) = [sample_row] \<and>
   skating_distance_section (merge_parsed_data sample_aggregate empty_parsed) = [sample_row] \<and>
   shot_speed_section (merge_parsed_data sample_aggregate empty_parsed) = [sample_row] \<and>
   shot_location_section (merge_parsed_data sample_aggregate empty_parsed) = PList [PInt 1] \<and>
   zonetime_section (merge_parsed_data sample_aggregate empty_parsed) = [sample_row] \<and>
   radar_chart (merge_parsed_data sample_aggregate empty_parsed)
     = Some \<lparr> config = PDict [], chart_items = [] \<rparr>"
  using merge_never_erases [of empty_parsed sample_aggregate]
  by (simp add: empty_parsed_def sample_aggregate_def)

text \<open>
  C5. Merging the same section payload twice in succession gives the same aggregate as
  merging it once; this holds for every payload, the non-empty ones included.
\<close>

theorem merge_idempotent:
  "merge_parsed_data (merge_parsed_data a s) s = merge_parsed_data a s"
  by (rule ParsedEdgeData.equality) (simp_all add: merge_slots)

section \<open>Numeric parsing\<close>





section \<open>Table parsing\<close>

lemma rbind_Inr [simp]: "rbind (Inr x) f = f x"
  by (simp add: rbind_def)

lemma rbind_Inl [simp]: "rbind (Inl e) f = Inl e"
  by (simp add: rbind_def)

lemma rbind_eq_Inr: "rbind m f = Inr y \<longleftrightarrow> (\<exists>x. m = Inr x \<and> f x = Inr y)"
  by (cases m) simp_all

lemma table_row_4:
  assumes "4 \<le> length cells"
  shows "\<exists>r. table_row 4 iss cells = Inr r \<and>
             percentile r = (if iss then safe_convert (get_text_strip (cells ! 3))
                             else convert_to_float (get_text_strip (cells ! 3)))"
proof -
  from assms have "0 < length cells" "1 < length cells" "2 < length cells" "3 < length cells"
    by auto
  then show ?thesis by (simp add: table_row_def py_index_def Let_def del: length_greater_0_conv)
qed

lemma table_rows_4: "\<exists>rows. table_rows 4 iss rs acc = Inr rows"
proof (induction rs arbitrary: acc)
  case Nil
  show ?case by simp
next
  case (Cons row rs)
  show ?case
  proof (cases "4 \<le> length (find_all [''td'', ''th''] row)")
    case True
    from table_row_4 [OF True, of iss] obtain r
      where "table_row 4 iss (find_all [''td'', ''th''] row) = Inr r" by blast
    with True Cons.IH [of "acc @ [r]"] show ?thesis by (simp add: Let_def)
  next
    case False
    with Cons.IH [of acc] show ?thesis by (simp add: Let_def)
  qed
qed

lemma parse_table_4: "\<exists>rows. parse_table soup 4 iss = Inr rows"
  using table_rows_4 by (simp add: parse_table_def split: option.splits)

lemmas dom_eval = sample_cell_def sample_document_def find_all_def find_tag_def find_by_id_def
  first_def get_text_strip_def is_hover_table_def select_one_table_def select_one_zone_table_def


lemma speed_rows:
  "parse_table speed_soup 4 True =
     Inr [\<lparr> stat_label = ''Top Shot Speed (mph)'', player_value = Some (Finite (2378 / 25)),
            league_average = Some (Finite (177 / 2)), percentile = None, tooltip = None \<rparr>]"
  "parse_table speed_soup 4 False =
     Inr [\<lparr> stat_label = ''Top Shot Speed (mph)'', player_value = Some (Finite (2378 / 25)),
            league_average = Some (Finite (177 / 2)), percentile = Some (Finite 84),
            tooltip = None \<rparr>]"
  by (simp_all add: parse_table_def speed_soup_def table_row_def py_index_def dom_eval
        float_eval Let_def)


section \<open>The extractor\<close>

text \<open>
  C8 fails on the code. The overview fragment below carries a radar chart whose JSON text is
  \<open>null\<close>: \<open>json.loads\<close> succeeds with \<open>None\<close>, and the membership test that follows
  the \<open>try\<close> raises \<open>TypeError\<close>, which leaves the extractor.
\<close>

theorem extractor_raises_on_null_chart:
  "parse_html_content radar_null_lib radar_null_markup ''#overview-section-content''
     = Inl TypeError"
  by (simp add: parse_html_content_def radar_null_lib_def radar_null_soup_def parse_table_def
        parse_radar_chart_def dom_eval Let_def)

lemma shot_location_table_rows:
  "\<exists>rows. parse_table soup 4 False = Inr rows \<and>
          shot_location_table soup = Inr (PList (map PRow rows))"
  using parse_table_4 [of soup False] by (auto simp: shot_location_table_def)

lemma shot_location_branch:
  "parse_html_content L html ''#shotlocation-section-content'' =
     rbind (case find_tag ''sl-webc-shot-chart'' (BeautifulSoup L (unescape L html)) of
              None \<Rightarrow> shot_location_table (BeautifulSoup L (unescape L html))
            | Some shot_chart \<Rightarrow>
                (case get_attr shot_chart ''data-json'' of
                   None \<Rightarrow> shot_location_table (BeautifulSoup L (unescape L html))
                 | Some a \<Rightarrow>
                     (case rbind (json_loads L (unescape L a))
                             (\<lambda>data. py_get data ''chartData'' (PList [])) of
                        Inl e \<Rightarrow> shot_location_table (BeautifulSoup L (unescape L html))
                      | Inr v \<Rightarrow> Inr v)))
       (\<lambda>sec. rbind (py_len sec) (\<lambda>n. Inr (empty_parsed\<lparr>shot_location_section := sec\<rparr>)))"
  by (simp add: parse_html_content_def Let_def)

lemma py_get_not_dict: "\<forall>kvs. v \<noteq> PDict kvs \<Longrightarrow> py_get v k d = Inl AttributeError"
  by (cases v) simp_all

text \<open>
  C9. For the shot-location target: when the chart element carries a \<open>data-json\<close>
  attribute that \<open>json.loads\<close> reads as an object, the slot is what \<open>chartData\<close> holds
  there (the empty list without that key) and the table is not looked at; a list is returned
  as it is. The table is parsed, with four columns, when there is no chart element, no
  attribute, or the attribute does not load as an object.
\<close>

theorem shot_location_chart_first:
  "(find_tag ''sl-webc-shot-chart'' (BeautifulSoup L (unescape L html)) = Some el \<and>
    get_attr el ''data-json'' = Some a \<and>
    json_loads L (unescape L a) = Inr (PDict kvs) \<longrightarrow>
      parse_html_content L html ''#shotlocation-section-content'' =
        rbind (py_len (case map_of kvs ''chartData'' of Some x \<Rightarrow> x | None \<Rightarrow> PList []))
          (\<lambda>n. Inr (empty_parsed\<lparr>shot_location_section :=
                  (case map_of kvs ''chartData'' of Some x \<Rightarrow> x | None \<Rightarrow> PList [])\<rparr>)) \<and>
      (map_of kvs ''chartData'' = Some (PList xs) \<longrightarrow>
         parse_html_content L html ''#shotlocation-section-content'' =
           Inr (empty_parsed\<lparr>shot_location_section := PList xs\<rparr>))) \<and>
   (find_tag ''sl-webc-shot-chart'' (BeautifulSoup L' (unescape L' html')) = None \<or>
    find_tag ''sl-webc-shot-chart'' (BeautifulSoup L' (unescape L' html')) = Some el' \<and>
      (get_attr el' ''data-json'' = None \<or>
       get_attr el' ''data-json'' = Some a' \<and>
         (\<forall>kvs'. json_loads L' (unescape L' a') \<noteq> Inr (PDict kvs'))) \<longrightarrow>
      (\<exists>rows. parse_table (BeautifulSoup L' (unescape L' html')) 4 False = Inr rows \<and>
         parse_html_content L' html' ''#shotlocation-section-content'' =
           Inr (empty_parsed\<lparr>shot_location_section := PList (map PRow rows)\<rparr>)))"
proof (intro conjI impI)
  assume h: "find_tag ''sl-webc-shot-chart'' (BeautifulSoup L (unescape L html)) = Some el \<and>
    get_attr el ''data-json'' = Some a \<and> json_loads L (unescape L a) = Inr (PDict kvs)"
  then show 1: "parse_html_content L html ''#shotlocation-section-content'' =
        rbind (py_len (case map_of kvs ''chartData'' of Some x \<Rightarrow> x | None \<Rightarrow> PList []))
          (\<lambda>n. Inr (empty_parsed\<lparr>shot_location_section :=
                  (case map_of kvs ''chartData'' of Some x \<Rightarrow> x | None \<Rightarrow> PList [])\<rparr>))"
    by (simp add: shot_location_branch)
  assume "map_of kvs ''chartData'' = Some (PList xs)"
  with 1 show "parse_html_content L html ''#shotlocation-section-content'' =
           Inr (empty_parsed\<lparr>shot_location_section := PList xs\<rparr>)"
    by simp
next
  let ?soup = "BeautifulSoup L' (unescape L' html')"
  assume h: "find_tag ''sl-webc-shot-chart'' ?soup = None \<or>
    find_tag ''sl-webc-shot-chart'' ?soup = Some el' \<and>
      (get_attr el' ''data-json'' = None \<or>
       get_attr el' ''data-json'' = Some a' \<and>
         (\<forall>kvs'. json_loads L' (unescape L' a') \<noteq> Inr (PDict kvs')))"
  from shot_location_table_rows [of ?soup] obtain rows
    where rows: "parse_table ?soup 4 False = Inr rows"
      "shot_location_table ?soup = Inr (PList (map PRow rows))" by blast
  have "parse_html_content L' html' ''#shotlocation-section-content'' =
           Inr (empty_parsed\<lparr>shot_location_section := PList (map PRow rows)\<rparr>)"
    using h
  proof (elim disjE conjE)
    assume "find_tag ''sl-webc-shot-chart'' ?soup = None"
    then show ?thesis by (simp add: shot_location_branch rows)
  next
    assume "find_tag ''sl-webc-shot-chart'' ?soup = Some el'" "get_attr el' ''data-json'' = None"
    then show ?thesis by (simp add: shot_location_branch rows)
  next
    assume e: "find_tag ''sl-webc-shot-chart'' ?soup = Some el'"
      "get_attr el' ''data-json'' = Some a'"
      and n: "\<forall>kvs'. json_loads L' (unescape L' a') \<noteq> Inr (PDict kvs')"
    have "\<exists>e. rbind (json_loads L' (unescape L' a'))
                 (\<lambda>data. py_get data ''chartData'' (PList [])) = Inl e"
    proof (cases "json_loads L' (unescape L' a')")
      case (Inl e)
      then show ?thesis by simp
    next
      case (Inr v)
      with n have "\<forall>kvs. v \<noteq> PDict kvs" by simp
      with Inr show ?thesis by (simp add: py_get_not_dict)
    qed
    then obtain e' where "rbind (json_loads L' (unescape L' a'))
                 (\<lambda>data. py_get data ''chartData'' (PList [])) = Inl e'" by blast
    with e show ?thesis by (simp add: shot_location_branch rows)
  qed
  with rows(1) show "\<exists>rows. parse_table ?soup 4 False = Inr rows \<and>
         parse_html_content L' html' ''#shotlocation-section-content'' =
           Inr (empty_parsed\<lparr>shot_location_section := PList (map PRow rows)\<rparr>)"
    by blast
qed

lemma chart_soup_facts:
  "find_tag ''sl-webc-shot-chart'' chart_soup
     = Some (Tag ''sl-webc-shot-chart'' [] [(''data-json'', chart_json)] [])"
  "find_tag ''sl-webc-shot-chart'' (sample_document [shots_table]) = None"
  "parse_table (sample_document [shots_table]) 4 False =
     Inr [\<lparr> stat_label = ''Shots'', player_value = Some (Finite 10),
            league_average = Some (Finite 8), percentile = Some (Finite 70), tooltip = None \<rparr>]"
  by (simp_all add: chart_soup_def shots_table_def parse_table_def table_row_def py_index_def
        dom_eval float_eval Let_def)

theorem shot_location_chart_first_witness:
  "find_tag ''sl-webc-shot-chart'' (BeautifulSoup chart_lib (unescape chart_lib chart_markup))
     = Some (Tag ''sl-webc-shot-chart'' [] [(''data-json'', chart_json)] []) \<and>
   get_attr (Tag ''sl-webc-shot-chart'' [] [(''data-json'', chart_json)] []) ''data-json''
     = Some chart_json \<and>
   json_loads chart_lib (unescape chart_lib chart_json)
     = Inr (PDict [(''chartData'', PList [PDict [(''x'', PInt 12), (''y'', PInt (- 3))]])]) \<and>
   parse_html_content chart_lib chart_markup ''#shotlocation-section-content''
     = Inr (empty_parsed\<lparr>shot_location_section :=
              PList [PDict [(''x'', PInt 12), (''y'', PInt (- 3))]]\<rparr>) \<and>
   find_tag ''sl-webc-shot-chart'' (BeautifulSoup chart_lib (unescape chart_lib ''<p></p>''))
     = None \<and>
   parse_html_content chart_lib ''<p></p>'' ''#shotlocation-section-content''
     = Inr (empty_parsed\<lparr>shot_location_section :=
              PList [PRow \<lparr> stat_label = ''Shots'', player_value = Some (Finite 10),
                league_average = Some (Finite 8), percentile = Some (Finite 70),
                tooltip = None \<rparr>]\<rparr>)"
proof -
  have m: "''<p></p>'' \<noteq> chart_markup" by (simp add: chart_markup_def)
  have s1: "BeautifulSoup chart_lib (unescape chart_lib chart_markup) = chart_soup"
    by (simp add: chart_lib_def)
  have s2: "BeautifulSoup chart_lib (unescape chart_lib ''<p></p>'') = sample_document [shots_table]"
    using m by (simp add: chart_lib_def)
  have j: "json_loads chart_lib (unescape chart_lib chart_json)
     = Inr (PDict [(''chartData'', PList [PDict [(''x'', PInt 12), (''y'', PInt (- 3))]])])"
    by (simp add: chart_lib_def)
  have a: "get_attr (Tag ''sl-webc-shot-chart'' [] [(''data-json'', chart_json)] []) ''data-json''
     = Some chart_json" by simp
  from shot_location_chart_first
    [of chart_lib chart_markup "Tag ''sl-webc-shot-chart'' [] [(''data-json'', chart_json)] []"
        chart_json "[(''chartData'', PList [PDict [(''x'', PInt 12), (''y'', PInt (- 3))]])]"
        "[PDict [(''x'', PInt 12), (''y'', PInt (- 3))]]" chart_lib "''<p></p>''"]
  show ?thesis
    unfolding s1 s2 j by (simp add: chart_soup_facts)
qed

lemma parse_html_content_shape:
  assumes "parse_html_content L html target = Inr p"
  shows "(target = ''#overview-section-content'' \<and>
            (\<exists>rows rc. p = empty_parsed\<lparr>overview_section := rows, radar_chart := rc\<rparr>)) \<or>
         (target = ''#skatingspeed-section-content'' \<and>
            (\<exists>rows. p = empty_parsed\<lparr>skating_speed_section := rows\<rparr>)) \<or>
         (target = ''#skatingdistance-section-content'' \<and>
            (\<exists>rows. p = empty_parsed\<lparr>skating_distance_section := rows\<rparr>)) \<or>
         (target = ''#shotspeed-section-content'' \<and>
            (\<exists>rows. p = empty_parsed\<lparr>shot_speed_section := rows\<rparr>)) \<or>
         (target = ''#shotlocation-section-content'' \<and>
            (\<exists>sec. p = empty_parsed\<lparr>shot_location_section := sec\<rparr>)) \<or>
         (target = ''#zonetime-section-content'' \<and>
            (\<exists>rows. p = empty_parsed\<lparr>zonetime_section := rows\<rparr>)) \<or>
         (target \<noteq> ''#overview-section-content'' \<and>
          target \<noteq> ''#skatingspeed-section-content'' \<and>
          target \<noteq> ''#skatingdistance-section-content'' \<and>
          target \<noteq> ''#shotspeed-section-content'' \<and>
          target \<noteq> ''#shotlocation-section-content'' \<and>
          target \<noteq> ''#zonetime-section-content'' \<and> p = empty_parsed)"
proof -
  consider (ov) "target = ''#overview-section-content''"
    | (ss) "target = ''#skatingspeed-section-content''"
    | (sd) "target = ''#skatingdistance-section-content''"
    | (sp) "target = ''#shotspeed-section-content''"
    | (sl) "target = ''#shotlocation-section-content''"
    | (zt) "target = ''#zonetime-section-content''"
    | (other) "target \<noteq> ''#overview-section-content''"
        "target \<noteq> ''#skatingspeed-section-content''"
        "target \<noteq> ''#skatingdistance-section-content''"
        "target \<noteq> ''#shotspeed-section-content''"
        "target \<noteq> ''#shotlocation-section-content''"
        "target \<noteq> ''#zonetime-section-content''"
    by blast
  then show ?thesis
  proof cases
    case ov
    from assms have "\<exists>rows rc. p = empty_parsed\<lparr>overview_section := rows, radar_chart := rc\<rparr>"
      unfolding ov parse_html_content_def Let_def by (auto simp: rbind_eq_Inr)
    with ov show ?thesis by blast
  next
    case ss
    from assms have "\<exists>rows. p = empty_parsed\<lparr>skating_speed_section := rows\<rparr>"
      unfolding ss parse_html_content_def Let_def by (auto simp: rbind_eq_Inr)
    with ss show ?thesis by blast
  next
    case sd
    from assms have "\<exists>rows. p = empty_parsed\<lparr>skating_distance_section := rows\<rparr>"
      unfolding sd parse_html_content_def Let_def by (auto simp: rbind_eq_Inr)
    with sd show ?thesis by blast
  next
    case sp
    from assms have "\<exists>rows. p = empty_parsed\<lparr>shot_speed_section := rows\<rparr>"
      unfolding sp parse_html_content_def Let_def by (auto simp: rbind_eq_Inr)
    with sp show ?thesis by blast
  next
    case sl
    from assms have "\<exists>sec. p = empty_parsed\<lparr>shot_location_section := sec\<rparr>"
      unfolding sl parse_html_content_def Let_def by (auto simp: rbind_eq_Inr)
    with sl show ?thesis by blast
  next
    case zt
    from assms have "\<exists>rows. p = empty_parsed\<lparr>zonetime_section := rows\<rparr>"
      unfolding zt parse_html_content_def Let_def by (auto simp: rbind_eq_Inr)
    with zt show ?thesis by blast
  next
    case other
    with assms have "p = empty_parsed" by (simp add: parse_html_content_def Let_def)
    with other show ?thesis by blast
  qed
qed

text \<open>
  C10. A payload that the extractor returns is empty in every slot that does not belong to
  the target: only the overview target can fill the overview section and the radar chart,
  and each other slot only its own target.
\<close>

theorem extractor_frame:
  "parse_html_content L html target = Inr p \<longrightarrow>
   (target \<noteq> ''#overview-section-content'' \<longrightarrow> overview_section p = [] \<and> radar_chart p = None) \<and>
   (target \<noteq> ''#skatingspeed-section-content'' \<longrightarrow> skating_speed_section p = []) \<and>
   (target \<noteq> ''#skatingdistance-section-content'' \<longrightarrow> skating_distance_section p = []) \<and>
   (target \<noteq> ''#shotspeed-section-content'' \<longrightarrow> shot_speed_section p = []) \<and>
   (target \<noteq> ''#shotlocation-section-content'' \<longrightarrow> shot_location_section p = PList []) \<and>
   (target \<noteq> ''#zonetime-section-content'' \<longrightarrow> zonetime_section p = [])"
proof
  assume "parse_html_content L html target = Inr p"
  from parse_html_content_shape [OF this] show
   "(target \<noteq> ''#overview-section-content'' \<longrightarrow> overview_section p = [] \<and> radar_chart p = None) \<and>
    (target \<noteq> ''#skatingspeed-section-content'' \<longrightarrow> skating_speed_section p = []) \<and>
    (target \<noteq> ''#skatingdistance-section-content'' \<longrightarrow> skating_distance_section p = []) \<and>
    (target \<noteq> ''#shotspeed-section-content'' \<longrightarrow> shot_speed_section p = []) \<and>
    (target \<noteq> ''#shotlocation-section-content'' \<longrightarrow> shot_location_section p = PList []) \<and>
    (target \<noteq> ''#zonetime-section-content'' \<longrightarrow> zonetime_section p = [])"
    by (elim disjE conjE exE) (simp_all add: empty_parsed_def)
qed

theorem extractor_frame_witness:
  "parse_html_content speed_lib speed_markup ''#shotspeed-section-content'' =
     Inr (empty_parsed\<lparr>shot_speed_section :=
        [\<lparr> stat_label = ''Top Shot Speed (mph)'', player_value = Some (Finite (2378 / 25)),
           league_average = Some (Finite (177 / 2)), percentile = None, tooltip = None \<rparr>]\<rparr>) \<and>
   overview_section (empty_parsed\<lparr>shot_speed_section :=
        [\<lparr> stat_label = ''Top Shot Speed (mph)'', player_value = Some (Finite (2378 / 25)),
           league_average = Some (Finite (177 / 2)), percentile = None, tooltip = None \<rparr>]\<rparr>) = [] \<and>
   shot_location_section (empty_parsed\<lparr>shot_speed_section :=
        [\<lparr> stat_label = ''Top Shot Speed (mph)'', player_value = Some (Finite (2378 / 25)),
           league_average = Some (Finite (177 / 2)), percentile = None, tooltip = None \<rparr>]\<rparr>)
     = PList []"
proof -
  have e: "parse_html_content speed_lib speed_markup ''#shotspeed-section-content'' =
     Inr (empty_parsed\<lparr>shot_speed_section :=
        [\<lparr> stat_label = ''Top Shot Speed (mph)'', player_value = Some (Finite (2378 / 25)),
           league_average = Some (Finite (177 / 2)), percentile = None, tooltip = None \<rparr>]\<rparr>)"
    by (simp add: parse_html_content_def Let_def speed_lib_def speed_rows)
  from extractor_frame [of speed_lib speed_markup "''#shotspeed-section-content''"
      "empty_parsed\<lparr>shot_speed_section :=
        [\<lparr> stat_label = ''Top Shot Speed (mph)'', player_value = Some (Finite (2378 / 25)),
           league_average = Some (Finite (177 / 2)), percentile = None, tooltip = None \<rparr>]\<rparr>"] e
  show ?thesis by simp
qed

section \<open>The session driver\<close>

lemma zone_rows_eval:
  "parse_zone_time_table zone_soup =
     [\<lparr> stat_label = ''Offensive Zone'', player_value = Some (Finite (249 / 5)),
        league_average = None, percentile = None, tooltip = None \<rparr>]"
  by (simp add: parse_zone_time_table_def zone_soup_def dom_eval float_eval Let_def)

lemma frames_differ: "zone_frame \<noteq> overview_frame" "zone_markup \<noteq> overview_markup"
  by (simp_all add: zone_frame_def overview_frame_def zone_markup_def overview_markup_def)

lemma zone_frame_loads:
  "json_loads client_lib zone_frame =
     Inr (PDict [(''type'', PStr ''html''), (''target'', PStr ''#zonetime-section-content''),
                 (''html'', PStr zone_markup)])"
  "BeautifulSoup client_lib (unescape client_lib zone_markup) = zone_soup"
  using frames_differ by (simp_all add: client_lib_def)

lemma strip_zone_target:
  "py_strip ''#zonetime-section-content'' = ''#zonetime-section-content''"
  by (simp add: py_strip_def strip_with_def py_isspace_def)

text \<open>
  C1 fails on the code for the frame that completes the expected set. The client below has
  received five targets; the zone-time frame arrives. The handler records the target, closes
  the connection and returns: the aggregate keeps its empty zone-time section, although the
  extractor run on the same fragment yields a row.
\<close>

theorem completing_frame_not_merged:
  "handle_text_message client_lib five_received fresh_ws zone_frame =
     Inr (five_received\<lparr>received_targets :=
            insert ''#zonetime-section-content'' (received_targets five_received)\<rparr>,
          \<lparr> sent = [], close_calls = 1 \<rparr>) \<and>
   zonetime_section (parsed_data five_received) = [] \<and>
   parse_html_content client_lib zone_markup ''#zonetime-section-content'' =
     Inr (empty_parsed\<lparr>zonetime_section :=
       [\<lparr> stat_label = ''Offensive Zone'', player_value = Some (Finite (249 / 5)),
          league_average = None, percentile = None, tooltip = None \<rparr>]\<rparr>)"
proof -
  have a: "handle_text_message client_lib five_received fresh_ws zone_frame =
     Inr (five_received\<lparr>received_targets :=
            insert ''#zonetime-section-content'' (received_targets five_received)\<rparr>,
          \<lparr> sent = [], close_calls = 1 \<rparr>)"
    by (simp add: handle_text_message_def zone_frame_loads strip_zone_target Let_def
          five_received_def init_client_def fresh_ws_def ws_close_def)
  have b: "zonetime_section (parsed_data five_received) = []"
    by (simp add: five_received_def init_client_def empty_parsed_def)
  have c: "parse_html_content client_lib zone_markup ''#zonetime-section-content'' =
     Inr (empty_parsed\<lparr>zonetime_section :=
       [\<lparr> stat_label = ''Offensive Zone'', player_value = Some (Finite (249 / 5)),
          league_average = None, percentile = None, tooltip = None \<rparr>]\<rparr>)"
    by (simp add: parse_html_content_def Let_def zone_frame_loads zone_rows_eval)
  from a b c show ?thesis by blast
qed

lemma handle_text_message_cases:
  assumes "handle_text_message L c ws d = Inr (c', ws')"
  shows "expected_targets c' = expected_targets c \<and>
         ((ws' = ws_close ws \<and> parsed_data c' = parsed_data c \<and>
           (\<exists>t. t \<in> expected_targets c \<and>
                received_targets c' = insert t (received_targets c) \<and>
                expected_targets c \<subseteq> insert t (received_targets c))) \<or>
          (ws' = ws \<and>
           (received_targets c' = received_targets c \<or>
            (\<exists>t. received_targets c' = insert t (received_targets c) \<and>
                 \<not> expected_targets c \<subseteq> insert t (received_targets c)))))"
proof -
  let ?c1 = "if save_messages c then c\<lparr>saved := saved c @ [d]\<rparr> else c"
  have c1: "expected_targets ?c1 = expected_targets c"
    "received_targets ?c1 = received_targets c" "parsed_data ?c1 = parsed_data c"
    by simp_all
  show ?thesis
  proof (cases "json_loads L d")
    case (Inl e)
    with assms have "c' = ?c1" "ws' = ws"
      by (auto simp: handle_text_message_def Let_def split: error.splits)
    with c1 show ?thesis by simp
  next
    case (Inr data)
    with assms have r: "rbind (py_get data ''type'' PNone) (\<lambda>msg_type.
             if msg_type = PStr ''html'' then
               rbind (py_get data ''html'' (PStr [])) (\<lambda>html_content.
               rbind (py_get data ''target'' (PStr [])) (\<lambda>t.
               rbind (py_str_strip t) (\<lambda>target.
               rbind (py_len html_content) (\<lambda>n.
                 (let hit = (target \<in> expected_targets ?c1);
                      c2 = (if hit
                            then ?c1\<lparr>received_targets := insert target (received_targets ?c1)\<rparr>
                            else ?c1)
                  in if hit \<and> expected_targets c2 \<subseteq> received_targets c2
                     then Inr (c2, ws_close ws)
                     else rbind (parse_segment L html_content target) (\<lambda>parsed_segment.
                            Inr (c2\<lparr>parsed_data :=
                                       merge_parsed_data (parsed_data c2) parsed_segment\<rparr>,
                                 ws)))))))
             else Inr (?c1, ws)) = Inr (c', ws')"
      by (simp add: handle_text_message_def Let_def)
    then obtain msg_type where mt: "py_get data ''type'' PNone = Inr msg_type"
      by (auto simp: rbind_eq_Inr)
    show ?thesis
    proof (cases "msg_type = PStr ''html''")
      case False
      with r mt have "c' = ?c1" "ws' = ws" by simp_all
      with c1 show ?thesis by simp
    next
      case True
      with r mt obtain html_content t target n
        where "py_str_strip t = Inr target"
          and body: "(let hit = (target \<in> expected_targets ?c1);
                      c2 = (if hit
                            then ?c1\<lparr>received_targets := insert target (received_targets ?c1)\<rparr>
                            else ?c1)
                  in if hit \<and> expected_targets c2 \<subseteq> received_targets c2
                     then Inr (c2, ws_close ws)
                     else rbind (parse_segment L html_content target) (\<lambda>parsed_segment.
                            Inr (c2\<lparr>parsed_data :=
                                       merge_parsed_data (parsed_data c2) parsed_segment\<rparr>,
                                 ws))) = Inr (c', ws')"
        by (auto simp: rbind_eq_Inr)
      show ?thesis
      proof (cases "target \<in> expected_targets ?c1")
        case False
        with body obtain seg where
          "c' = ?c1\<lparr>parsed_data := merge_parsed_data (parsed_data ?c1) seg\<rparr>" "ws' = ws"
          by (auto simp: rbind_eq_Inr Let_def)
        with c1 show ?thesis by simp
      next
        case hit: True
        show ?thesis
        proof (cases "expected_targets ?c1 \<subseteq> insert target (received_targets ?c1)")
          case True
          with hit body have
            "c' = ?c1\<lparr>received_targets := insert target (received_targets ?c1)\<rparr>"
            "ws' = ws_close ws"
            by (simp_all add: Let_def)
          with hit True c1 show ?thesis by auto
        next
          case False
          with hit body obtain seg where
            "c' = ?c1\<lparr>received_targets := insert target (received_targets ?c1),
                       parsed_data := merge_parsed_data (parsed_data ?c1) seg\<rparr>" "ws' = ws"
            by (auto simp: rbind_eq_Inr Let_def)
          with False c1 show ?thesis by auto
        qed
      qed
    qed
  qed
qed

lemma handle_completing_step:
  assumes "handle_text_message L c ws d = Inr (c', ws')"
    and "\<not> expected_targets c \<subseteq> received_targets c"
    and "expected_targets c' \<subseteq> received_targets c'"
  shows "ws' = ws_close ws"
  using handle_text_message_cases [OF assms(1)] assms(2,3) by auto

lemma listen_stopped: "0 < close_calls ws \<Longrightarrow> listen L c ws msgs = Inr (c, ws)"
  by (cases msgs) simp_all

lemma listen_closes:
  "listen L c ws msgs = Inr (c', ws') \<Longrightarrow> close_calls ws = 0 \<Longrightarrow>
   \<not> expected_targets c \<subseteq> received_targets c \<Longrightarrow>
   expected_targets c' \<subseteq> received_targets c' \<Longrightarrow> close_calls ws' = 1"
proof (induction msgs arbitrary: c ws)
  case Nil
  then show ?case by simp
next
  case (Cons m ms)
  show ?case
  proof (cases m)
    case (TEXT d)
    with Cons.prems(1,2) obtain c1 ws1
      where h: "handle_text_message L c ws d = Inr (c1, ws1)"
        and l: "listen L c1 ws1 ms = Inr (c', ws')"
      by (auto simp: rbind_eq_Inr)
    show ?thesis
    proof (cases "expected_targets c1 \<subseteq> received_targets c1")
      case True
      with h Cons.prems(3) have "ws1 = ws_close ws" by (rule handle_completing_step)
      with Cons.prems(2) have cl: "close_calls ws1 = 1" by (simp add: ws_close_def)
      then have "listen L c1 ws1 ms = Inr (c1, ws1)" by (simp add: listen_stopped)
      with l cl show ?thesis by simp
    next
      case False
      from handle_text_message_cases [OF h] False have "ws1 = ws" by auto
      with Cons.IH [OF l _ False Cons.prems(4)] Cons.prems(2) show ?thesis by simp
    qed
  next
    case BINARY
    with Cons.prems(1,2) have "listen L c ws ms = Inr (c', ws')" by simp
    from Cons.IH [OF this Cons.prems(2,3,4)] show ?thesis .
  next
    case PING
    with Cons.prems(1,2) have "listen L c ws ms = Inr (c', ws')" by simp
    from Cons.IH [OF this Cons.prems(2,3,4)] show ?thesis .
  next
    case PONG
    with Cons.prems(1,2) have "listen L c ws ms = Inr (c', ws')" by simp
    from Cons.IH [OF this Cons.prems(2,3,4)] show ?thesis .
  next
    case CLOSE
    with Cons.prems(1,2) have "listen L c ws ms = Inr (c', ws')" by simp
    from Cons.IH [OF this Cons.prems(2,3,4)] show ?thesis .
  next
    case CLOSING
    with Cons.prems show ?thesis by simp
  next
    case CLOSED
    with Cons.prems show ?thesis by simp
  next
    case ERROR
    with Cons.prems show ?thesis by simp
  qed
qed

lemma close_calls_send_all: "close_calls (foldl send_json ws ms) = close_calls ws"
  by (induction ms arbitrary: ws) (simp_all add: send_json_def)

lemma session_closes:
  assumes "connect_and_communicate L c pid inbound = Inr (c', ws')"
    and "\<not> expected_targets c \<subseteq> received_targets c"
    and "expected_targets c' \<subseteq> received_targets c'"
  shows "close_calls ws' = 1"
proof -
  let ?ws = "foldl send_json (send_json \<lparr> sent = [], close_calls = 0 \<rparr> (initial_message pid))
               (generate_subsequent_messages pid)"
  from assms(1) have l: "listen L (c\<lparr>subsequent_sent := True\<rparr>) ?ws inbound = Inr (c', ws')"
    by (simp add: connect_and_communicate_def Let_def)
  have z: "close_calls ?ws = 0" by (simp add: close_calls_send_all send_json_def)
  from assms(2) have n: "\<not> expected_targets (c\<lparr>subsequent_sent := True\<rparr>)
                            \<subseteq> received_targets (c\<lparr>subsequent_sent := True\<rparr>)" by simp
  from listen_closes [OF l z n assms(3)] show ?thesis .
qed

text \<open>
  C2. The step that completes the expected set closes the connection itself: when a text
  message is handled and the received set covers the expected set afterwards but did not
  before, the handler has called \<open>close\<close> once more. So a session that starts with the
  expected set not covered and ends with it covered has closed the connection, whatever the
  remote side sent after.
\<close>

theorem driver_closes_on_completion:
  "(handle_text_message L c ws d = Inr (c', ws') \<and>
    \<not> expected_targets c \<subseteq> received_targets c \<and>
    expected_targets c' \<subseteq> received_targets c' \<longrightarrow>
      close_calls ws' = Suc (close_calls ws) \<and> sent ws' = sent ws) \<and>
   (connect_and_communicate L c0 pid inbound = Inr (c1, ws1) \<and>
    \<not> expected_targets c0 \<subseteq> received_targets c0 \<and>
    expected_targets c1 \<subseteq> received_targets c1 \<longrightarrow>
      close_calls ws1 = 1)"
proof (intro conjI impI)
  assume h: "handle_text_message L c ws d = Inr (c', ws') \<and>
    \<not> expected_targets c \<subseteq> received_targets c \<and>
    expected_targets c' \<subseteq> received_targets c'"
  then have "ws' = ws_close ws" by (blast intro: handle_completing_step)
  then show "close_calls ws' = Suc (close_calls ws)" "sent ws' = sent ws"
    by (simp_all add: ws_close_def)
next
  assume "connect_and_communicate L c0 pid inbound = Inr (c1, ws1) \<and>
    \<not> expected_targets c0 \<subseteq> received_targets c0 \<and>
    expected_targets c1 \<subseteq> received_targets c1"
  then show "close_calls ws1 = 1" by (blast intro: session_closes)
qed

lemma zone_frame_completing:
  assumes "''#zonetime-section-content'' \<in> expected_targets c"
    and "expected_targets c \<subseteq> insert ''#zonetime-section-content'' (received_targets c)"
    and "\<not> save_messages c"
  shows "handle_text_message client_lib c ws zone_frame =
           Inr (c\<lparr>received_targets :=
                    insert ''#zonetime-section-content'' (received_targets c)\<rparr>,
                ws_close ws)"
  using assms
  by (simp add: handle_text_message_def zone_frame_loads strip_zone_target Let_def)

lemma five_received_sets:
  "expected_targets five_received =
     {''#overview-section-content'', ''#skatingspeed-section-content'',
      ''#skatingdistance-section-content'', ''#shotspeed-section-content'',
      ''#shotlocation-section-content'', ''#zonetime-section-content''}"
  "received_targets five_received =
     {''#overview-section-content'', ''#skatingspeed-section-content'',
      ''#skatingdistance-section-content'', ''#shotspeed-section-content'',
      ''#shotlocation-section-content''}"
  "save_messages five_received = False"
  by (simp_all add: five_received_def init_client_def)

lemma five_received_facts:
  "''#zonetime-section-content'' \<in> expected_targets five_received"
  "expected_targets five_received
     \<subseteq> insert ''#zonetime-section-content'' (received_targets five_received)"
  "\<not> expected_targets five_received \<subseteq> received_targets five_received"
  unfolding five_received_sets by simp_all

theorem driver_closes_on_completion_witness:
  "handle_text_message client_lib five_received fresh_ws zone_frame =
     Inr (five_received\<lparr>received_targets :=
            insert ''#zonetime-section-content'' (received_targets five_received)\<rparr>,
          ws_close fresh_ws) \<and>
   \<not> expected_targets five_received \<subseteq> received_targets five_received \<and>
   expected_targets five_received
     \<subseteq> insert ''#zonetime-section-content'' (received_targets five_received) \<and>
   close_calls (ws_close fresh_ws) = Suc (close_calls fresh_ws) \<and>
   sent (ws_close fresh_ws) = sent fresh_ws \<and>
   connect_and_communicate client_lib five_received ''8478402'' [TEXT zone_frame] =
     Inr (five_received\<lparr>subsequent_sent := True, received_targets :=
            insert ''#zonetime-section-content'' (received_targets five_received)\<rparr>,
          ws_close (foldl send_json (send_json \<lparr> sent = [], close_calls = 0 \<rparr>
                      (initial_message ''8478402''))
                    (generate_subsequent_messages ''8478402''))) \<and>
   close_calls (ws_close (foldl send_json (send_json \<lparr> sent = [], close_calls = 0 \<rparr>
                      (initial_message ''8478402''))
                    (generate_subsequent_messages ''8478402''))) = 1"
proof -
  let ?c6 = "five_received\<lparr>received_targets :=
            insert ''#zonetime-section-content'' (received_targets five_received)\<rparr>"
  let ?ws = "foldl send_json (send_json \<lparr> sent = [], close_calls = 0 \<rparr>
                      (initial_message ''8478402''))
                    (generate_subsequent_messages ''8478402'')"
  let ?c6' = "five_received\<lparr>subsequent_sent := True, received_targets :=
            insert ''#zonetime-section-content'' (received_targets five_received)\<rparr>"
  have step: "handle_text_message client_lib five_received fresh_ws zone_frame
                = Inr (?c6, ws_close fresh_ws)"
    using five_received_facts five_received_sets(3) by (simp add: zone_frame_completing)
  have z: "close_calls ?ws = 0" by (simp add: close_calls_send_all send_json_def)
  have step': "handle_text_message client_lib (five_received\<lparr>subsequent_sent := True\<rparr>) ?ws
                 zone_frame = Inr (?c6', ws_close ?ws)"
    using five_received_facts five_received_sets(3) by (simp add: zone_frame_completing)
  have sess: "connect_and_communicate client_lib five_received ''8478402'' [TEXT zone_frame]
                = Inr (?c6', ws_close ?ws)"
    unfolding connect_and_communicate_def Let_def
    using z step' by simp
  have n: "\<not> expected_targets five_received \<subseteq> received_targets five_received"
    by (rule five_received_facts(3))
  have y: "expected_targets ?c6 \<subseteq> received_targets ?c6"
    "expected_targets ?c6' \<subseteq> received_targets ?c6'"
    using five_received_facts(2) by simp_all
  from driver_closes_on_completion
    [where L = client_lib and c = five_received and ws = fresh_ws and d = zone_frame
       and c' = ?c6 and ws' = "ws_close fresh_ws" and ?c0.0 = five_received
       and pid = "''8478402''" and inbound = "[TEXT zone_frame]" and ?c1.0 = ?c6'
       and ?ws1.0 = "ws_close ?ws"]
    step sess n y five_received_facts(2)
  show ?thesis by simp
qed












end
